theory Spec2Isabelle
  imports Main
begin

section \<open>JavaScript strings and values\<close>

text \<open>
  Strings are character lists. The identifiers, environment values and field ids handled
  by the raw-modal services are ASCII, so one \<open>char\<close> stands for one UTF-16 code unit and
  \<open>length\<close> is the \<open>.length\<close> of the source.
\<close>

text \<open>\<open>String.prototype.split\<close> with a one-character separator: the empty string
  gives one empty segment, and every separator starts a new segment.\<close>

fun split :: "char \<Rightarrow> string \<Rightarrow> string list" where
  "split sep [] = [[]]"
| "split sep (c # cs) =
     (if c = sep then [] # split sep cs
      else (case split sep cs of
              [] \<Rightarrow> [[c]]
            | w # ws \<Rightarrow> (c # w) # ws))"

text \<open>\<open>Array.prototype.join\<close> with a one-character separator.\<close>

fun join :: "char \<Rightarrow> string list \<Rightarrow> string" where
  "join sep [] = []"
| "join sep [x] = x"
| "join sep (x # y # ys) = x @ sep # join sep (y # ys)"

text \<open>Reading index \<open>i\<close> of an array: \<open>undefined\<close> (here \<open>None\<close>) out of range, as in
  the array destructuring of the source.\<close>

fun at :: "'a list \<Rightarrow> nat \<Rightarrow> 'a option" where
  "at [] i = None"
| "at (x # xs) 0 = Some x"
| "at (x # xs) (Suc i) = at xs i"

text \<open>\<open>x ?? d\<close> for a value that is \<open>undefined\<close> or \<open>null\<close> (here \<open>None\<close>) or
  present.\<close>

definition the_default :: "'a \<Rightarrow> 'a option \<Rightarrow> 'a" where
  "the_default d x = (case x of None \<Rightarrow> d | Some y \<Rightarrow> y)"

text \<open>Truthiness of a value that is a string or \<open>undefined\<close>: \<open>!s\<close> holds for
  \<open>undefined\<close> and for the empty string.\<close>

fun truthy :: "string option \<Rightarrow> bool" where
  "truthy None = False"
| "truthy (Some s) = (s \<noteq> [])"

definition startsWith :: "string \<Rightarrow> string \<Rightarrow> bool" where
  "startsWith s p = (take (length p) s = p)"

text \<open>The white space that \<open>trim\<close> and \<open>parseInt\<close> skip, among the characters below
  256: tab, line feed, vertical tab, form feed, carriage return, space and the no-break
  space.\<close>

definition isWhiteSpace :: "char \<Rightarrow> bool" where
  "isWhiteSpace c = ((of_char c :: nat) \<in> {9, 10, 11, 12, 13, 32, 160})"

definition trimStart :: "string \<Rightarrow> string" where
  "trimStart s = dropWhile isWhiteSpace s"

definition trim :: "string \<Rightarrow> string" where
  "trim s = rev (dropWhile isWhiteSpace (rev (dropWhile isWhiteSpace s)))"

text \<open>\<open>toLowerCase\<close> on the ASCII letters; the other characters are kept.\<close>

definition lowerChar :: "char \<Rightarrow> char" where
  "lowerChar c =
     (let n = (of_char c :: nat) in if 65 \<le> n \<and> n \<le> 90 then char_of (n + 32) else c)"

definition toLowerCase :: "string \<Rightarrow> string" where
  "toLowerCase s = map lowerChar s"

text \<open>JavaScript numbers as far as \<open>parseInt\<close> produces them. \<open>Finite\<close> carries the
  exact integer; the rounding of integers above \<open>2^53\<close> to the nearest double is not
  modelled, the overflow to infinity is.\<close>

datatype jsnumber = NaN | Finite int | PosInfinity | NegInfinity

definition toNumber :: "int \<Rightarrow> jsnumber" where
  "toNumber i =
     (if i \<ge> 2 ^ 1024 - 2 ^ 970 then PosInfinity
      else if i \<le> - (2 ^ 1024 - 2 ^ 970) then NegInfinity
      else Finite i)"

definition isDigit :: "char \<Rightarrow> bool" where
  "isDigit c = (c \<in> set ''0123456789'')"

definition digitValue :: "char \<Rightarrow> nat" where
  "digitValue c = (of_char c :: nat) - 48"

definition digitsValue :: "string \<Rightarrow> nat" where
  "digitsValue ds = foldl (\<lambda>acc c. 10 * acc + digitValue c) 0 ds"

text \<open>\<open>Number.parseInt(s, 10)\<close>: leading white space is skipped, one sign is read, then
  the longest run of decimal digits; what follows the digits is ignored, and no digit at
  all gives \<open>NaN\<close>.\<close>

definition parseInt :: "string \<Rightarrow> jsnumber" where
  "parseInt s =
     (let t = trimStart s;
          negative = (case t of [] \<Rightarrow> False | c # _ \<Rightarrow> c = CHR ''-'');
          u = (case t of [] \<Rightarrow> [] | c # cs \<Rightarrow> if c = CHR ''+'' \<or> c = CHR ''-'' then cs else t);
          z = takeWhile isDigit u
      in if z = [] then NaN
         else toNumber ((if negative then - 1 else 1) * int (digitsValue z)))"

text \<open>A number in a template literal, for the natural numbers.\<close>

function numberToString :: "nat \<Rightarrow> string" where
  "numberToString n =
     (if n < 10 then [char_of (48 + n)]
      else numberToString (n div 10) @ [char_of (48 + n mod 10)])"
  by pat_completeness auto
termination
  by (relation "measure (\<lambda>n. n)") auto

declare numberToString.simps [simp del]

section \<open>RawModalScope\<close>

definition RAW_MODAL_CUSTOM_ID_PREFIX :: string where
  "RAW_MODAL_CUSTOM_ID_PREFIX = ''modal''"

definition RAW_MODAL_SCHEMA_VERSION :: nat where
  "RAW_MODAL_SCHEMA_VERSION = 1"

definition RAW_MODAL_SUPPORTED_FEATURES :: "string list" where
  "RAW_MODAL_SUPPORTED_FEATURES = [''todo'', ''suggestion'', ''nominate'', ''round-history'']"

definition RAW_MODAL_TODO_PILOT_FLOWS :: "string list" where
  "RAW_MODAL_TODO_PILOT_FLOWS =
     [''create'', ''comment'', ''edit-title'', ''edit-description'', ''query'']"

definition RAW_MODAL_SUGGESTION_PILOT_FLOWS :: "string list" where
  "RAW_MODAL_SUGGESTION_PILOT_FLOWS = [''review-decision'']"

definition RAW_MODAL_NOMINATE_FLOWS :: "string list" where
  "RAW_MODAL_NOMINATE_FLOWS = [''create'']"

definition RAW_MODAL_ROUND_HISTORY_FLOWS :: "string list" where
  "RAW_MODAL_ROUND_HISTORY_FLOWS = [''query'']"

text \<open>The members of the union type \<open>RawModalFlow\<close>.\<close>

definition RawModalFlow :: "string list" where
  "RawModalFlow =
     RAW_MODAL_TODO_PILOT_FLOWS @ RAW_MODAL_SUGGESTION_PILOT_FLOWS
       @ RAW_MODAL_NOMINATE_FLOWS @ RAW_MODAL_ROUND_HISTORY_FLOWS"

definition RAW_MODAL_PILOT_FEATURES :: "string list" where
  "RAW_MODAL_PILOT_FEATURES = [''todo'', ''suggestion'']"

section \<open>RawModalCustomId\<close>

definition MAX_DISCORD_CUSTOM_ID_LENGTH :: nat where
  "MAX_DISCORD_CUSTOM_ID_LENGTH = 100"

record IRawModalCustomIdParts =
  feature :: string
  flow :: string
  sessionId :: string

record IRawModalParsedCustomId = IRawModalCustomIdParts +
  version :: int

datatype RawModalError =
    UnsupportedFeature string
  | UnsupportedFlow string
  | InvalidSessionId
  | CustomIdTooLong
  | CustomIdMissingOrTooLong
  | RequestFailed string
  | DuplicateSession string

definition isSupportedFeature :: "string \<Rightarrow> bool" where
  "isSupportedFeature v = (v \<in> set RAW_MODAL_SUPPORTED_FEATURES)"

definition isSupportedFlow :: "string \<Rightarrow> bool" where
  "isSupportedFlow v = (v \<in> set RAW_MODAL_TODO_PILOT_FLOWS)"

text \<open>\<open>SESSION_ID_PATTERN = /^[A-Za-z0-9_-]{1,64}$/\<close>.\<close>

definition isSessionIdChar :: "char \<Rightarrow> bool" where
  "isSessionIdChar c =
     (c \<in> set ''ABCDEFGHIJKLMNOPQRSTUVWXYZabcdefghijklmnopqrstuvwxyz0123456789_-'')"

definition isSessionIdValid :: "string \<Rightarrow> bool" where
  "isSessionIdValid s = (1 \<le> length s \<and> length s \<le> 64 \<and> list_all isSessionIdChar s)"

definition buildRawModalCustomId :: "IRawModalCustomIdParts \<Rightarrow> RawModalError + string" where
  "buildRawModalCustomId parts =
     (if \<not> isSupportedFeature (feature parts) then Inl (UnsupportedFeature (feature parts))
      else if \<not> isSupportedFlow (flow parts) then Inl (UnsupportedFlow (flow parts))
      else if \<not> isSessionIdValid (sessionId parts) then Inl InvalidSessionId
      else
        (let customId = join (CHR '':'')
               [RAW_MODAL_CUSTOM_ID_PREFIX,
                feature parts,
                CHR ''v'' # numberToString RAW_MODAL_SCHEMA_VERSION,
                flow parts,
                sessionId parts]
         in if length customId > MAX_DISCORD_CUSTOM_ID_LENGTH then Inl CustomIdTooLong
            else Inr customId))"

definition parseRawModalCustomId :: "string \<Rightarrow> IRawModalParsedCustomId option" where
  "parseRawModalCustomId customId =
     (let segments = split (CHR '':'') customId;
          prefix = at segments 0;
          feature' = at segments 1;
          versionPart = at segments 2;
          flow' = at segments 3;
          sessionId' = at segments 4
      in if \<not> truthy prefix \<or> \<not> truthy feature' \<or> \<not> truthy versionPart
              \<or> \<not> truthy flow' \<or> \<not> truthy sessionId' then None
         else
           (case (prefix, feature', versionPart, flow', sessionId') of
              (Some p, Some f, Some v, Some fl, Some sid) \<Rightarrow>
                if p \<noteq> RAW_MODAL_CUSTOM_ID_PREFIX then None
                else if \<not> isSupportedFeature f \<or> \<not> isSupportedFlow fl then None
                else if \<not> startsWith v ''v'' then None
                else if \<not> isSessionIdValid sid then None
                else
                  (case parseInt (drop 1 v) of
                     Finite parsedVersion \<Rightarrow>
                       if parsedVersion < 1 then None
                       else Some \<lparr> feature = f, flow = fl, sessionId = sid,
                                   version = parsedVersion \<rparr>
                   | _ \<Rightarrow> None)
            | _ \<Rightarrow> None))"

section \<open>RawModalSession\<close>

text \<open>
  A \<open>Date\<close> and a database timestamp are the milliseconds since the epoch
  (\<open>getTime()\<close>), an integer.
\<close>

type_synonym Date = int

datatype RawModalSessionStatus = StatusOpen | StatusSubmitted | StatusExpired

text \<open>
  One row of the table \<open>RPG_CLUB_RAW_MODAL_SESSIONS\<close>. The column \<open>STATUS\<close> holds the
  upper-cased name of the status (\<open>toDbStatus\<close>, read back by \<open>fromDbStatus\<close>); the model
  keeps the status itself. \<open>CREATED_AT\<close> and \<open>UPDATED_AT\<close> are filled by the database and
  read by no function below; they are left out.
\<close>

record RawModalSessionRow =
  SESSION_ID :: string
  FEATURE_ID :: string
  FLOW_ID :: string
  OWNER_USER_ID :: string
  GUILD_ID :: "string option"
  CHANNEL_ID :: "string option"
  STATE_JSON :: string
  STATUS :: RawModalSessionStatus
  EXPIRES_AT :: Date

text \<open>The table is the list of its rows; every statement below is one SQL statement,
  executed and committed as a whole (\<open>autoCommit\<close>), and returns the new table with its
  result.\<close>

type_synonym SessionTable = "RawModalSessionRow list"

record IRawModalSessionCreateInput = IRawModalCustomIdParts +
  ownerUserId :: string
  guildId :: "string option"
  channelId :: "string option"
  stateJson :: string
  expiresAt :: Date

record IRawModalSessionUpdateInput =
  update_sessionId :: string
  update_status :: RawModalSessionStatus

definition RAW_MODAL_DEFAULT_TTL_MINUTES :: int where
  "RAW_MODAL_DEFAULT_TTL_MINUTES = 15"

definition isRawModalSessionExpired :: "RawModalSessionRow \<Rightarrow> Date \<Rightarrow> bool" where
  "isRawModalSessionExpired session now = (EXPIRES_AT session \<le> now)"

definition buildRawModalSessionExpiry :: "Date \<Rightarrow> int \<Rightarrow> Date" where
  "buildRawModalSessionExpiry now ttlMinutes = now + max 1 ttlMinutes * 60 * 1000"

text \<open>\<open>SELECT ... WHERE SESSION_ID = :sessionId\<close>, first row of the result.
  \<open>mapRawModalSessionRow\<close> only renames the columns, so the row itself is returned.\<close>

definition getRawModalSessionRecord :: "SessionTable \<Rightarrow> string \<Rightarrow> RawModalSessionRow option" where
  "getRawModalSessionRecord table sid = find (\<lambda>row. SESSION_ID row = sid) table"

text \<open>\<open>INSERT\<close> of a row with status \<open>OPEN\<close>. \<open>SESSION_ID\<close> is the primary key of the
  table: the insert of an id that is already stored is refused by the database, the
  statement throws and the table is as before.\<close>

definition createRawModalSessionRecord ::
  "SessionTable \<Rightarrow> IRawModalSessionCreateInput \<Rightarrow> RawModalError + (RawModalSessionRow \<times> SessionTable)"
where
  "createRawModalSessionRecord table input =
     (if \<exists>row \<in> set table. SESSION_ID row = sessionId input
      then Inl (DuplicateSession (sessionId input))
      else
        (let row = \<lparr> SESSION_ID = sessionId input,
                      FEATURE_ID = feature input,
                      FLOW_ID = flow input,
                      OWNER_USER_ID = ownerUserId input,
                      GUILD_ID = guildId input,
                      CHANNEL_ID = channelId input,
                      STATE_JSON = stateJson input,
                      STATUS = StatusOpen,
                      EXPIRES_AT = expiresAt input \<rparr>;
             table' = table @ [row]
         in (case getRawModalSessionRecord table' (sessionId input) of
               None \<Rightarrow> Inl (RequestFailed ''Failed to create raw modal session.'')
             | Some saved \<Rightarrow> Inr (saved, table'))))"

text \<open>An \<open>UPDATE ... SET STATUS = s WHERE cond\<close>: every row that satisfies the condition
  gets the status, and \<open>rowsAffected\<close> is the number of those rows.\<close>

definition updateWhere ::
  "(RawModalSessionRow \<Rightarrow> bool) \<Rightarrow> RawModalSessionStatus \<Rightarrow> SessionTable \<Rightarrow> nat \<times> SessionTable"
where
  "updateWhere cond s table =
     (length (filter cond table),
      map (\<lambda>row. if cond row then row\<lparr>STATUS := s\<rparr> else row) table)"

definition updateRawModalSessionStatus ::
  "SessionTable \<Rightarrow> IRawModalSessionUpdateInput \<Rightarrow> bool \<times> SessionTable" where
  "updateRawModalSessionStatus table input =
     (let (rowsAffected, table') =
            updateWhere (\<lambda>row. SESSION_ID row = update_sessionId input)
              (update_status input) table
      in (rowsAffected > 0, table'))"

definition claimCondition :: "string \<Rightarrow> string \<Rightarrow> Date \<Rightarrow> RawModalSessionRow \<Rightarrow> bool" where
  "claimCondition sid owner nowTs row =
     (SESSION_ID row = sid \<and> OWNER_USER_ID row = owner
        \<and> STATUS row = StatusOpen \<and> EXPIRES_AT row > nowTs)"

definition claimRawModalSessionForSubmit ::
  "SessionTable \<Rightarrow> string \<Rightarrow> string \<Rightarrow> Date \<Rightarrow> bool \<times> SessionTable" where
  "claimRawModalSessionForSubmit table sid owner now =
     (let (rowsAffected, table') =
            updateWhere (claimCondition sid owner now) StatusSubmitted table
      in (rowsAffected > 0, table'))"

definition expireRawModalSession :: "SessionTable \<Rightarrow> string \<Rightarrow> bool \<times> SessionTable" where
  "expireRawModalSession table sid =
     updateRawModalSessionStatus table
       \<lparr> update_sessionId = sid, update_status = StatusExpired \<rparr>"

definition deleteCondition :: "Date \<Rightarrow> RawModalSessionRow \<Rightarrow> bool" where
  "deleteCondition cutoffDate row =
     (EXPIRES_AT row < cutoffDate \<and> STATUS row \<in> {StatusOpen, StatusExpired})"

definition deleteExpiredRawModalSessions :: "SessionTable \<Rightarrow> Date \<Rightarrow> nat \<times> SessionTable" where
  "deleteExpiredRawModalSessions table cutoffDate =
     (length (filter (deleteCondition cutoffDate) table),
      filter (\<lambda>row. \<not> deleteCondition cutoffDate row) table)"

section \<open>RawModalSubmitValidation\<close>

text \<open>The component types of the Discord library that the services name; every other
  member of the enumeration is \<open>OtherComponentType\<close> with its number.\<close>

datatype ComponentType =
    ActionRow | TextInput | StringSelect | UserSelect | RoleSelect | MentionableSelect
  | ChannelSelect | Label | FileUpload | RadioGroup | CheckboxGroup | Checkbox
  | OtherComponentType nat

text \<open>An untyped JavaScript value, as far as the validators look into it.\<close>

datatype jsval =
    JUndefined | JNull | JBoolean bool | JNumber int | JString string
  | JArray "jsval list" | JObject

fun isString :: "jsval \<Rightarrow> bool" where
  "isString (JString s) = True"
| "isString _ = False"

fun isArray :: "jsval \<Rightarrow> bool" where
  "isArray (JArray xs) = True"
| "isArray _ = False"

fun isBoolean :: "jsval \<Rightarrow> bool" where
  "isBoolean (JBoolean b) = True"
| "isBoolean _ = False"

fun elements :: "jsval \<Rightarrow> jsval list" where
  "elements (JArray xs) = xs"
| "elements _ = []"

text \<open>A submitted field as the Discord library hands it over (\<open>ModalData\<close>), and the
  top-level components of a modal submission that wrap the fields.\<close>

record ModalData =
  field_type :: ComponentType
  field_customId :: jsval
  field_value :: jsval
  field_values :: jsval
  field_attachments :: "string list"

datatype TopLevelModalData =
    ActionRowModalData "ModalData list"
  | LabelModalData ModalData
  | OtherModalData

record IRawModalSubmitValidationResult =
  ok :: bool
  reason :: "string option"

definition accept :: IRawModalSubmitValidationResult where
  "accept = \<lparr> ok = True, reason = None \<rparr>"

definition reject :: "string \<Rightarrow> IRawModalSubmitValidationResult" where
  "reject r = \<lparr> ok = False, reason = Some r \<rparr>"

definition MAX_CUSTOM_ID_LENGTH :: nat where "MAX_CUSTOM_ID_LENGTH = 100"
definition MAX_TEXT_INPUT_LENGTH :: nat where "MAX_TEXT_INPUT_LENGTH = 4000"
definition MAX_SELECT_VALUES :: nat where "MAX_SELECT_VALUES = 25"
definition MAX_FILE_UPLOAD_VALUES :: nat where "MAX_FILE_UPLOAD_VALUES = 10"

fun stringOf :: "jsval \<Rightarrow> string" where
  "stringOf (JString s) = s"
| "stringOf _ = []"

definition isNonEmptyString :: "jsval \<Rightarrow> bool" where
  "isNonEmptyString v = (isString v \<and> length (stringOf v) > 0)"

definition validateCustomId :: "jsval \<Rightarrow> IRawModalSubmitValidationResult" where
  "validateCustomId customId =
     (if \<not> isNonEmptyString customId then reject ''component custom id is missing''
      else if length (stringOf customId) > MAX_CUSTOM_ID_LENGTH
        then reject ''component custom id exceeds 100 characters''
      else accept)"

definition validateSelectValues :: "jsval \<Rightarrow> IRawModalSubmitValidationResult" where
  "validateSelectValues values =
     (if \<not> isArray values then reject ''select values must be an array''
      else if length (elements values) > MAX_SELECT_VALUES
        then reject ''select values exceed allowed limit''
      else if \<not> list_all isString (elements values)
        then reject ''select values contain a non-string value''
      else accept)"

text \<open>The loop over the attachment ids of a file upload: the first id that is not a
  non-empty string, or not a key of the attachments, ends it.\<close>

fun checkAttachmentIds :: "jsval list \<Rightarrow> string list \<Rightarrow> IRawModalSubmitValidationResult" where
  "checkAttachmentIds [] attachmentIds = accept"
| "checkAttachmentIds (attachmentId # rest) attachmentIds =
     (if \<not> isNonEmptyString attachmentId then reject ''file upload attachment id is invalid''
      else if stringOf attachmentId \<notin> set attachmentIds
        then reject ''file upload attachment id is unresolved''
      else checkAttachmentIds rest attachmentIds)"

definition validateFileUploadValues ::
  "jsval \<Rightarrow> string list \<Rightarrow> IRawModalSubmitValidationResult" where
  "validateFileUploadValues values attachmentIds =
     (if \<not> isArray values \<or> length (elements values) = 0
        then reject ''file upload must contain at least one attachment id''
      else if length (elements values) > MAX_FILE_UPLOAD_VALUES
        then reject ''file upload contains too many attachment ids''
      else checkAttachmentIds (elements values) attachmentIds)"

definition validateModalField :: "ModalData \<Rightarrow> IRawModalSubmitValidationResult" where
  "validateModalField field =
     (let customIdCheck = validateCustomId (field_customId field)
      in if \<not> ok customIdCheck then customIdCheck
         else
           (case field_type field of
              TextInput \<Rightarrow>
                if \<not> isString (field_value field)
                then reject ''text input value must be a string''
                else if length (stringOf (field_value field)) > MAX_TEXT_INPUT_LENGTH
                then reject ''text input value exceeds max length''
                else accept
            | StringSelect \<Rightarrow> validateSelectValues (field_values field)
            | UserSelect \<Rightarrow> validateSelectValues (field_values field)
            | RoleSelect \<Rightarrow> validateSelectValues (field_values field)
            | MentionableSelect \<Rightarrow> validateSelectValues (field_values field)
            | ChannelSelect \<Rightarrow> validateSelectValues (field_values field)
            | FileUpload \<Rightarrow>
                validateFileUploadValues (field_values field) (field_attachments field)
            | _ \<Rightarrow> reject ''unsupported modal field type''))"

fun collectModalFields :: "TopLevelModalData list \<Rightarrow> ModalData list" where
  "collectModalFields [] = []"
| "collectModalFields (ActionRowModalData children # rest) = children @ collectModalFields rest"
| "collectModalFields (LabelModalData child # rest) = child # collectModalFields rest"
| "collectModalFields (OtherModalData # rest) = collectModalFields rest"

text \<open>\<open>field.customId ?? ""\<close>.\<close>

fun customIdOrEmpty :: "jsval \<Rightarrow> jsval" where
  "customIdOrEmpty JUndefined = JString []"
| "customIdOrEmpty JNull = JString []"
| "customIdOrEmpty v = v"

text \<open>The loop over the collected fields, with the set of the custom ids seen so far.\<close>

fun validateFields :: "jsval list \<Rightarrow> ModalData list \<Rightarrow> IRawModalSubmitValidationResult" where
  "validateFields seenCustomIds [] = accept"
| "validateFields seenCustomIds (field # rest) =
     (let customId = customIdOrEmpty (field_customId field)
      in if customId \<in> set seenCustomIds
         then reject ''duplicate component custom id detected in modal submit''
         else
           (let fieldCheck = validateModalField field
            in if \<not> ok fieldCheck then fieldCheck
               else validateFields (customId # seenCustomIds) rest))"

definition validateRawModalSubmitInteractionPayload ::
  "string \<Rightarrow> TopLevelModalData list \<Rightarrow> IRawModalSubmitValidationResult" where
  "validateRawModalSubmitInteractionPayload customId components =
     (let customIdCheck = validateCustomId (JString customId)
      in if \<not> ok customIdCheck
         then reject (''modal custom id invalid: '' @ the_default [] (reason customIdCheck))
         else
           (let fields = collectModalFields components
            in if length fields = 0 then reject ''modal submit has no submitted fields''
               else validateFields [] fields))"

section \<open>RawModalFeatureFlag\<close>

text \<open>The process environment: a variable is set to a string or is not set.\<close>

type_synonym ProcessEnv = "string \<Rightarrow> string option"

definition RAW_IMPROVED_MODALS_ENV :: string where
  "RAW_IMPROVED_MODALS_ENV = ''USE_RAW_IMPROVED_MODALS''"

definition RAW_MODAL_PILOT_GUILD_IDS_ENV :: string where
  "RAW_MODAL_PILOT_GUILD_IDS_ENV = ''RAW_MODAL_PILOT_GUILD_IDS''"

definition RAW_MODAL_ALL_GUILDS_TOKEN :: string where
  "RAW_MODAL_ALL_GUILDS_TOKEN = ''*''"

definition readBooleanEnv :: "ProcessEnv \<Rightarrow> string \<Rightarrow> bool" where
  "readBooleanEnv env name = (toLowerCase (trim (the_default [] (env name))) = ''true'')"

text \<open>The set of the configured guild ids, kept as the list of its members.\<close>

definition parseGuildIdList :: "string \<Rightarrow> string list" where
  "parseGuildIdList rawValue =
     filter (\<lambda>v. length v > 0) (map trim (split (CHR '','') rawValue))"

definition isRawImprovedModalsEnabled :: "ProcessEnv \<Rightarrow> bool" where
  "isRawImprovedModalsEnabled env = readBooleanEnv env RAW_IMPROVED_MODALS_ENV"

definition isRawModalPilotFeature :: "string \<Rightarrow> bool" where
  "isRawModalPilotFeature f = (f \<in> set RAW_MODAL_PILOT_FEATURES)"

definition isRawModalPilotEnabledForGuild :: "ProcessEnv \<Rightarrow> string option \<Rightarrow> bool" where
  "isRawModalPilotEnabledForGuild env gid =
     (let configuredGuildIds =
            parseGuildIdList (the_default [] (env RAW_MODAL_PILOT_GUILD_IDS_ENV))
      in if configuredGuildIds = [] then False
         else if RAW_MODAL_ALL_GUILDS_TOKEN \<in> set configuredGuildIds then True
         else if \<not> truthy gid then False
         else the_default [] gid \<in> set configuredGuildIds)"

definition isRawModalPilotEnabled :: "ProcessEnv \<Rightarrow> string \<Rightarrow> string option \<Rightarrow> bool" where
  "isRawModalPilotEnabled env f gid =
     (if \<not> isRawImprovedModalsEnabled env then False
      else if \<not> isRawModalPilotFeature f then False
      else isRawModalPilotEnabledForGuild env gid)"

section \<open>RawModalInteractionRouter\<close>

text \<open>
  An interaction as far as the router reads it. A message-component interaction and a
  modal submission carry a custom id and can be replied to; every other kind carries
  none. The replies go out through the Discord library; the model collects them in the
  order in which they are sent. The log lines are not modelled.
\<close>

datatype InteractionKind = MessageComponent | ModalSubmit | OtherInteraction

record Interaction =
  interaction_kind :: InteractionKind
  interaction_customId :: string
  interaction_userId :: string
  interaction_guildId :: "string option"
  interaction_components :: "TopLevelModalData list"

datatype RouterOutput = DeferReply | Reply string

definition RAW_MODAL_PREFIX :: string where
  "RAW_MODAL_PREFIX = RAW_MODAL_CUSTOM_ID_PREFIX @ '':''"

definition getInteractionCustomId :: "Interaction \<Rightarrow> string option" where
  "getInteractionCustomId interaction =
     (if interaction_kind interaction = MessageComponent then Some (interaction_customId interaction)
      else if interaction_kind interaction = ModalSubmit then Some (interaction_customId interaction)
      else None)"

definition isRepliable :: "Interaction \<Rightarrow> bool" where
  "isRepliable interaction = (interaction_kind interaction \<noteq> OtherInteraction)"

definition MSG_NOT_WIRED :: string where
  "MSG_NOT_WIRED = ''This modal flow is reserved for direct API routing and is not wired yet.''"

definition MSG_INVALID_PAYLOAD :: string where
  "MSG_INVALID_PAYLOAD =
     ''Your modal submission payload was invalid. Please reopen the flow and try again.''"

definition MSG_SESSION_NOT_FOUND :: string where
  "MSG_SESSION_NOT_FOUND =
     ''This modal session was not found. Please reopen the flow and try again.''"

definition MSG_OTHER_USER :: string where
  "MSG_OTHER_USER =
     ''This modal belongs to a different user. Please start your own modal flow.''"

definition MSG_SESSION_EXPIRED :: string where
  "MSG_SESSION_EXPIRED = ''This modal session expired. Please reopen the flow to continue.''"

definition MSG_NO_LONGER_ACTIVE :: string where
  "MSG_NO_LONGER_ACTIVE =
     ''This modal session is no longer active. Please reopen the flow to continue.''"

definition MSG_CLAIM_FAILED :: string where
  "MSG_CLAIM_FAILED = ''This modal was already submitted or expired. Please reopen the flow.''"

definition MSG_ACCEPTED :: string where
  "MSG_ACCEPTED =
     ''Modal submission accepted for this session. Raw handling will be wired next.''"

definition handleManagedRawModalInteraction :: "Interaction \<Rightarrow> RouterOutput list" where
  "handleManagedRawModalInteraction interaction =
     (if \<not> isRepliable interaction then [] else [Reply MSG_NOT_WIRED])"

definition sendSessionRecoveryMessage :: "Interaction \<Rightarrow> string \<Rightarrow> RouterOutput list" where
  "sendSessionRecoveryMessage interaction content =
     (if \<not> isRepliable interaction then [] else [Reply content])"

text \<open>
  The submission pipeline. The source reads the clock twice, for the default argument
  of \<open>isRawModalSessionExpired\<close> and for that of \<open>claimRawModalSessionForSubmit\<close>: these
  are \<open>nowCheck\<close> and \<open>nowClaim\<close>. The result is the list of the replies and the table
  after the call.
\<close>

definition handleManagedRawModalSubmit ::
  "SessionTable \<Rightarrow> Date \<Rightarrow> Date \<Rightarrow> Interaction \<Rightarrow> string \<Rightarrow> RouterOutput list \<times> SessionTable"
where
  "handleManagedRawModalSubmit table nowCheck nowClaim interaction sid =
     (if interaction_kind interaction \<noteq> ModalSubmit then ([], table)
      else
        (let validation = validateRawModalSubmitInteractionPayload
               (interaction_customId interaction) (interaction_components interaction)
         in if \<not> ok validation
            then (DeferReply # sendSessionRecoveryMessage interaction MSG_INVALID_PAYLOAD, table)
            else
              (case getRawModalSessionRecord table sid of
                 None \<Rightarrow>
                   (DeferReply # sendSessionRecoveryMessage interaction MSG_SESSION_NOT_FOUND,
                    table)
               | Some session \<Rightarrow>
                   if OWNER_USER_ID session \<noteq> interaction_userId interaction
                   then (DeferReply # sendSessionRecoveryMessage interaction MSG_OTHER_USER,
                         table)
                   else if isRawModalSessionExpired session nowCheck
                   then
                     (let table' =
                            (if STATUS session = StatusOpen
                             then snd (expireRawModalSession table (SESSION_ID session))
                             else table)
                      in (DeferReply # sendSessionRecoveryMessage interaction MSG_SESSION_EXPIRED,
                          table'))
                   else if STATUS session \<noteq> StatusOpen
                   then (DeferReply # sendSessionRecoveryMessage interaction MSG_NO_LONGER_ACTIVE,
                         table)
                   else
                     (let (claimed, table') =
                            claimRawModalSessionForSubmit table (SESSION_ID session)
                              (interaction_userId interaction) nowClaim
                      in if \<not> claimed
                         then (DeferReply # sendSessionRecoveryMessage interaction MSG_CLAIM_FAILED,
                               table')
                         else ([DeferReply, Reply MSG_ACCEPTED], table')))))"

text \<open>The dispatcher: the result is \<open>handled\<close>, the replies and the table. Its
  \<open>catch\<close> branch answers a failure of the database or of the reply transport, which
  the model does not have.\<close>

definition tryHandleManagedRawModalInteraction ::
  "ProcessEnv \<Rightarrow> SessionTable \<Rightarrow> Date \<Rightarrow> Date \<Rightarrow> Interaction
     \<Rightarrow> bool \<times> RouterOutput list \<times> SessionTable"
where
  "tryHandleManagedRawModalInteraction env table nowCheck nowClaim interaction =
     (case getInteractionCustomId interaction of
        None \<Rightarrow> (False, [], table)
      | Some customId \<Rightarrow>
          if customId = [] \<or> \<not> startsWith customId RAW_MODAL_PREFIX then (False, [], table)
          else
            (case parseRawModalCustomId customId of
               None \<Rightarrow> (True, handleManagedRawModalInteraction interaction, table)
             | Some parsed \<Rightarrow>
                 if \<not> isRawModalPilotEnabled env (feature parsed) (interaction_guildId interaction)
                 then (False, [], table)
                 else if interaction_kind interaction = ModalSubmit
                 then
                   (let (replies, table') =
                          handleManagedRawModalSubmit table nowCheck nowClaim interaction
                            (sessionId parsed)
                    in (True, replies, table'))
                 else (True, handleManagedRawModalInteraction interaction, table)))"

section \<open>RawModalApiService\<close>

record 'c IRawModalOpenRequest = IRawModalCustomIdParts +
  interactionId :: string
  interactionToken :: string
  customId :: "string option"
  title :: string
  components :: 'c

text \<open>The \<open>data\<close> of the modal response that \<open>openModal\<close> posts.\<close>

record 'c ModalResponseData =
  custom_id :: string
  response_title :: string
  response_components :: 'c

text \<open>
  \<open>openModal\<close>. The HTTP call is the parameter \<open>post\<close>: it takes the interaction id,
  the interaction token and the payload and returns the error it throws, if any. The
  source returns nothing; the model returns the payload it has posted.
\<close>

definition openModal ::
  "(string \<Rightarrow> string \<Rightarrow> 'c ModalResponseData \<Rightarrow> string option) \<Rightarrow> 'c IRawModalOpenRequest
     \<Rightarrow> RawModalError + 'c ModalResponseData"
where
  "openModal post request =
     (case (case customId request of
              Some given \<Rightarrow> Inr given
            | None \<Rightarrow> buildRawModalCustomId
                        \<lparr> feature = feature request, flow = flow request,
                          sessionId = sessionId request \<rparr>) of
        Inl e \<Rightarrow> Inl e
      | Inr cid \<Rightarrow>
          if cid = [] \<or> length cid > 100 then Inl CustomIdMissingOrTooLong
          else
            (let payload = \<lparr> custom_id = cid, response_title = title request,
                             response_components = components request \<rparr>
             in (case post (interactionId request) (interactionToken request) payload of
                   Some err \<Rightarrow> Inl (RequestFailed err)
                 | None \<Rightarrow> Inr payload)))"

text \<open>
  The raw components of a submission as the Discord API sends them. \<open>api_type\<close> is
  \<open>None\<close> when the \<open>type\<close> of the component is not a number; a child that is missing
  or falsy is \<open>None\<close>.
\<close>

record ModalSubmitComponent =
  api_type :: "ComponentType option"
  api_custom_id :: jsval
  api_value :: jsval
  api_values :: jsval

datatype APIModalSubmissionComponent =
    APIActionRow "ModalSubmitComponent option list"
  | APILabel "ModalSubmitComponent option"
  | APIOtherComponent

text \<open>The \<open>data\<close> of a modal submission: the custom id, the top-level components (the
  empty list when the field is not an array) and the ids of the resolved attachments.\<close>

record APIModalSubmitData =
  data_custom_id :: jsval
  data_components :: "APIModalSubmissionComponent list"
  data_resolved_attachments :: "string list"

fun flattenSubmittedComponents :: "APIModalSubmissionComponent list \<Rightarrow> ModalSubmitComponent list" where
  "flattenSubmittedComponents [] = []"
| "flattenSubmittedComponents (APIActionRow children # rest) =
     concat (map (\<lambda>child. case child of None \<Rightarrow> [] | Some c \<Rightarrow> [c]) children)
       @ flattenSubmittedComponents rest"
| "flattenSubmittedComponents (APILabel child # rest) =
     (case child of None \<Rightarrow> [] | Some c \<Rightarrow> [c]) @ flattenSubmittedComponents rest"
| "flattenSubmittedComponents (APIOtherComponent # rest) = flattenSubmittedComponents rest"

definition isModalSubmitComponent :: "ModalSubmitComponent \<Rightarrow> bool" where
  "isModalSubmitComponent candidate = (api_type candidate \<noteq> None \<and> isString (api_custom_id candidate))"

text \<open>Every attachment id of a file upload must be a key of the resolved attachments;
  an id that is not a string is taken as unresolved.\<close>

fun attachmentsResolved :: "jsval list \<Rightarrow> string list \<Rightarrow> bool" where
  "attachmentsResolved [] resolved = True"
| "attachmentsResolved (JString s # rest) resolved =
     (s \<in> set resolved \<and> attachmentsResolved rest resolved)"
| "attachmentsResolved (v # rest) resolved = False"

text \<open>The test of the select menus and of the checkbox group, which share one
  \<open>case\<close> body: the values are not an array, or one of them is not a string.\<close>

definition selectValuesInvalid :: "ModalSubmitComponent \<Rightarrow> bool" where
  "selectValuesInvalid component =
     (\<not> isArray (api_values component)
        \<or> \<not> list_all isString (elements (api_values component)))"

text \<open>The \<open>switch\<close> on the component type: \<open>None\<close> when the component passes.\<close>

definition checkSubmittedValue :: "ModalSubmitComponent \<Rightarrow> string list \<Rightarrow> string option" where
  "checkSubmittedValue component resolved =
     (case api_type component of
        Some TextInput \<Rightarrow>
          if \<not> isString (api_value component) \<or> length (stringOf (api_value component)) > 4000
          then Some ''text input value is invalid'' else None
      | Some StringSelect \<Rightarrow>
          if selectValuesInvalid component then Some ''select values are invalid'' else None
      | Some UserSelect \<Rightarrow>
          if selectValuesInvalid component then Some ''select values are invalid'' else None
      | Some RoleSelect \<Rightarrow>
          if selectValuesInvalid component then Some ''select values are invalid'' else None
      | Some MentionableSelect \<Rightarrow>
          if selectValuesInvalid component then Some ''select values are invalid'' else None
      | Some ChannelSelect \<Rightarrow>
          if selectValuesInvalid component then Some ''select values are invalid'' else None
      | Some CheckboxGroup \<Rightarrow>
          if selectValuesInvalid component then Some ''select values are invalid'' else None
      | Some FileUpload \<Rightarrow>
          if \<not> isArray (api_values component) \<or> length (elements (api_values component)) = 0
          then Some ''file upload values are invalid''
          else if \<not> attachmentsResolved (elements (api_values component)) resolved
          then Some ''file upload attachment id is unresolved'' else None
      | Some RadioGroup \<Rightarrow>
          if \<not> (api_value component = JNull \<or> isString (api_value component))
          then Some ''radio group value is invalid'' else None
      | Some Checkbox \<Rightarrow>
          if \<not> isBoolean (api_value component) then Some ''checkbox value is invalid'' else None
      | _ \<Rightarrow> Some ''unsupported modal component type'')"

fun checkSubmittedComponents ::
  "string list \<Rightarrow> string list \<Rightarrow> ModalSubmitComponent list \<Rightarrow> IRawModalSubmitValidationResult" where
  "checkSubmittedComponents seenIds resolved [] = accept"
| "checkSubmittedComponents seenIds resolved (component # rest) =
     (if \<not> isModalSubmitComponent component
      then reject ''modal submission contains an invalid component entry''
      else
        (let cid = stringOf (api_custom_id component)
         in if cid = [] \<or> length cid > 100
            then reject ''component custom id is missing or too long''
            else if cid \<in> set seenIds then reject ''duplicate component custom id in payload''
            else
              (case checkSubmittedValue component resolved of
                 Some r \<Rightarrow> reject r
               | None \<Rightarrow> checkSubmittedComponents (cid # seenIds) resolved rest)))"

definition validateSubmitComponents ::
  "APIModalSubmitData option \<Rightarrow> IRawModalSubmitValidationResult" where
  "validateSubmitComponents interactionData =
     (case interactionData of
        None \<Rightarrow> reject ''modal interaction data is missing''
      | Some d \<Rightarrow>
          (let cid = stringOf (data_custom_id d)
           in if cid = [] \<or> length cid > 100
              then reject ''modal custom id is missing or too long''
              else if length (data_components d) = 0
              then reject ''modal submission has no top-level components''
              else
                (let flatComponents = flattenSubmittedComponents (data_components d)
                 in if length flatComponents = 0
                    then reject ''modal submission has no components''
                    else checkSubmittedComponents [] (data_resolved_attachments d)
                           flatComponents)))"

section \<open>Sequences of store operations\<close>

text \<open>
  \<open>N\<close> calls of \<open>claimRawModalSessionForSubmit\<close> with the same arguments. Each call is
  one \<open>UPDATE\<close> statement that the database executes and commits as a whole, so calls
  that run at the same time take effect one after the other, in some order; the calls
  being identical, every order is this one. The result is the list of the values
  returned and the table after the last call.
\<close>

fun claimRepeatedly ::
  "SessionTable \<Rightarrow> string \<Rightarrow> string \<Rightarrow> Date \<Rightarrow> nat \<Rightarrow> bool list \<times> SessionTable" where
  "claimRepeatedly table sid owner now 0 = ([], table)"
| "claimRepeatedly table sid owner now (Suc n) =
     (let (claimed, table') = claimRawModalSessionForSubmit table sid owner now;
          (rest, table'') = claimRepeatedly table' sid owner now n
      in (claimed # rest, table''))"

text \<open>The operations of the session store that write a status, and a sequence of
  them run against the table. A \<open>create\<close> that the database refuses leaves the table
  as it was.\<close>

datatype SessionStoreOp =
    OpCreate IRawModalSessionCreateInput
  | OpUpdateStatus IRawModalSessionUpdateInput
  | OpClaimForSubmit string string Date
  | OpExpire string

fun applyOp :: "SessionTable \<Rightarrow> SessionStoreOp \<Rightarrow> SessionTable" where
  "applyOp table (OpCreate input) =
     (case createRawModalSessionRecord table input of
        Inl e \<Rightarrow> table
      | Inr (saved, table') \<Rightarrow> table')"
| "applyOp table (OpUpdateStatus input) = snd (updateRawModalSessionStatus table input)"
| "applyOp table (OpClaimForSubmit sid owner now) =
     snd (claimRawModalSessionForSubmit table sid owner now)"
| "applyOp table (OpExpire sid) = snd (expireRawModalSession table sid)"

definition runOps :: "SessionTable \<Rightarrow> SessionStoreOp list \<Rightarrow> SessionTable" where
  "runOps table ops = foldl applyOp table ops"

definition statusOf :: "SessionTable \<Rightarrow> string \<Rightarrow> RawModalSessionStatus option" where
  "statusOf table sid = map_option STATUS (getRawModalSessionRecord table sid)"

fun isCreateOrClaim :: "SessionStoreOp \<Rightarrow> bool" where
  "isCreateOrClaim (OpCreate input) = True"
| "isCreateOrClaim (OpClaimForSubmit sid owner now) = True"
| "isCreateOrClaim _ = False"

section \<open>Example inputs\<close>

text \<open>A stored session: open, owned by user \<open>42\<close>, expiring at time \<open>2000\<close>.\<close>

definition exampleRow :: RawModalSessionRow where
  "exampleRow = \<lparr> SESSION_ID = ''abc123'', FEATURE_ID = ''todo'', FLOW_ID = ''create'',
      OWNER_USER_ID = ''42'', GUILD_ID = None, CHANNEL_ID = None, STATE_JSON = ''{}'',
      STATUS = StatusOpen, EXPIRES_AT = 2000 \<rparr>"

text \<open>An environment with the switch on and every guild allowed.\<close>

definition exampleEnv :: ProcessEnv where
  "exampleEnv = map_of [(''USE_RAW_IMPROVED_MODALS'', ''true''), (''RAW_MODAL_PILOT_GUILD_IDS'', ''*'')]"

text \<open>Submitted fields: a text input with the value \<open>ok\<close>, and a radio group with
  the chosen value \<open>accept\<close>.\<close>

definition textField :: ModalData where
  "textField = \<lparr> field_type = TextInput, field_customId = JString ''title'',
      field_value = JString ''ok'', field_values = JUndefined, field_attachments = [] \<rparr>"

definition radioField :: ModalData where
  "radioField = \<lparr> field_type = RadioGroup, field_customId = JString ''choice'',
      field_value = JString ''accept'', field_values = JUndefined, field_attachments = [] \<rparr>"

text \<open>Modal submissions of user \<open>42\<close> in guild \<open>7\<close>: for the session \<open>abc123\<close> with
  the text input, for a nomination session, and for \<open>abc123\<close> with the radio group under
  a label; and the raw payload of the last one, as the Discord API sends it.\<close>

definition exampleSubmit :: Interaction where
  "exampleSubmit = \<lparr> interaction_kind = ModalSubmit,
      interaction_customId = ''modal:todo:v1:create:abc123'',
      interaction_userId = ''42'', interaction_guildId = Some ''7'',
      interaction_components = [ActionRowModalData [textField]] \<rparr>"

definition nominateSubmit :: Interaction where
  "nominateSubmit = exampleSubmit\<lparr> interaction_customId := ''modal:nominate:v1:create:u42_r3'' \<rparr>"

definition radioSubmit :: Interaction where
  "radioSubmit = exampleSubmit\<lparr> interaction_components := [LabelModalData radioField] \<rparr>"

definition radioSubmitData :: APIModalSubmitData where
  "radioSubmitData = \<lparr> data_custom_id = JString ''modal:todo:v1:create:abc123'',
      data_components =
        [APILabel (Some \<lparr> api_type = Some RadioGroup, api_custom_id = JString ''choice'',
                           api_value = JString ''accept'', api_values = JUndefined \<rparr>)],
      data_resolved_attachments = [] \<rparr>"

text \<open>Open requests: the one that \<open>openSuggestionReviewDecisionModal\<close> builds for
  reviewer \<open>42\<close> and suggestion \<open>7\<close>, which brings its own custom id, and the one of the
  nomination command, which brings none; and an HTTP call that succeeds.\<close>

definition suggestionReviewRequest :: "unit IRawModalOpenRequest" where
  "suggestionReviewRequest = \<lparr> feature = ''suggestion'', flow = ''review-decision'',
      sessionId = ''suggestion-7'', interactionId = ''1'', interactionToken = ''t'',
      customId = Some ''suggestion-review-decision:42:7'',
      title = ''Suggestion Review Decision'', components = () \<rparr>"

definition nominateRequest :: "unit IRawModalOpenRequest" where
  "nominateRequest = \<lparr> feature = ''nominate'', flow = ''create'',
      sessionId = ''u42_r3'', interactionId = ''1'', interactionToken = ''t'',
      customId = None, title = ''Nominate a Game'', components = () \<rparr>"

definition postOk :: "string \<Rightarrow> string \<Rightarrow> unit ModalResponseData \<Rightarrow> string option" where
  "postOk iid token payload = None"

section \<open>Properties of the session store\<close>

lemma claim_unfold:
  "claimRawModalSessionForSubmit table sid owner now =
     (\<exists>row \<in> set table. claimCondition sid owner now row,
      map (\<lambda>row. if claimCondition sid owner now row
                  then row\<lparr>STATUS := StatusSubmitted\<rparr> else row) table)"
  by (simp add: claimRawModalSessionForSubmit_def updateWhere_def filter_empty_conv)

lemma update_unfold:
  "updateRawModalSessionStatus table input =
     (\<exists>row \<in> set table. SESSION_ID row = update_sessionId input,
      map (\<lambda>row. if SESSION_ID row = update_sessionId input
                  then row\<lparr>STATUS := update_status input\<rparr> else row) table)"
  by (simp add: updateRawModalSessionStatus_def updateWhere_def filter_empty_conv)

lemma no_claimable_after_claim:
  assumes "row \<in> set (snd (claimRawModalSessionForSubmit table sid owner now))"
  shows "\<not> claimCondition sid owner now row"
proof -
  from assms obtain r where r: "r \<in> set table"
      "row = (if claimCondition sid owner now r then r\<lparr>STATUS := StatusSubmitted\<rparr> else r)"
    unfolding claim_unfold by auto
  show ?thesis
  proof (cases "claimCondition sid owner now r")
    case True
    then have "STATUS row = StatusSubmitted" using r(2) by simp
    then show ?thesis by (simp add: claimCondition_def)
  next
    case False
    then show ?thesis using r(2) by simp
  qed
qed

lemma claim_nothing_claimable:
  assumes "\<forall>row \<in> set table. \<not> claimCondition sid owner now row"
  shows "claimRawModalSessionForSubmit table sid owner now = (False, table)"
proof -
  have "map (\<lambda>row. if claimCondition sid owner now row
                     then row\<lparr>STATUS := StatusSubmitted\<rparr> else row) table = table"
    by (rule map_idI) (use assms in simp)
  then show ?thesis using assms by (simp add: claim_unfold)
qed

lemma claimRepeatedly_nothing_claimable:
  "\<forall>row \<in> set table. \<not> claimCondition sid owner now row
     \<Longrightarrow> claimRepeatedly table sid owner now n = (replicate n False, table)"
  by (induction n) (simp_all add: claim_nothing_claimable)

lemma find_map_same_id:
  "(\<And>row. SESSION_ID (f row) = SESSION_ID row)
     \<Longrightarrow> find (\<lambda>row. SESSION_ID row = sid) (map f table)
         = map_option f (find (\<lambda>row. SESSION_ID row = sid) table)"
  by (induction table) auto

lemma get_after_claim:
  "getRawModalSessionRecord (snd (claimRawModalSessionForSubmit table sid owner now)) sid' =
     map_option (\<lambda>row. if claimCondition sid owner now row
                         then row\<lparr>STATUS := StatusSubmitted\<rparr> else row)
       (getRawModalSessionRecord table sid')"
  by (simp add: claim_unfold getRawModalSessionRecord_def find_map_same_id)

lemma get_after_update:
  "getRawModalSessionRecord (snd (updateRawModalSessionStatus table input)) sid' =
     map_option (\<lambda>row. if SESSION_ID row = update_sessionId input
                         then row\<lparr>STATUS := update_status input\<rparr> else row)
       (getRawModalSessionRecord table sid')"
  by (simp add: update_unfold getRawModalSessionRecord_def find_map_same_id)

lemma get_Some_D:
  "getRawModalSessionRecord table sid = Some row \<Longrightarrow> row \<in> set table \<and> SESSION_ID row = sid"
  unfolding getRawModalSessionRecord_def
  by (induction table) (auto split: if_splits)

text \<open>
  \<^bold>\<open>C1.\<close> Against a stored session that is open, owned by \<open>U\<close> and not expired at
  \<open>now\<close>, \<open>N \<ge> 1\<close> calls of \<open>claimRawModalSessionForSubmit\<close> with the same arguments
  return \<open>true\<close> exactly once and \<open>false\<close> \<open>N - 1\<close> times, and the session is
  \<open>submitted\<close> at the end. The calls are the atomic statements of \<open>claimRepeatedly\<close>.
\<close>

theorem exactly_one_claim_succeeds:
  assumes stored: "getRawModalSessionRecord table sid = Some row"
    and owned: "OWNER_USER_ID row = U"
    and "open": "STATUS row = StatusOpen"
    and unexpired: "EXPIRES_AT row > now"
    and calls: "N \<ge> 1"
  shows "length (filter (\<lambda>r. r) (fst (claimRepeatedly table sid U now N))) = 1
       \<and> length (filter (\<lambda>r. \<not> r) (fst (claimRepeatedly table sid U now N))) = N - 1
       \<and> length (fst (claimRepeatedly table sid U now N)) = N
       \<and> getRawModalSessionRecord (snd (claimRepeatedly table sid U now N)) sid
           = Some (row\<lparr>STATUS := StatusSubmitted\<rparr>)"
proof -
  obtain n where N: "N = Suc n" using calls by (cases N) auto
  define table' where "table' = snd (claimRawModalSessionForSubmit table sid U now)"
  have cond: "claimCondition sid U now row"
    using get_Some_D [OF stored] owned "open" unexpired by (simp add: claimCondition_def)
  have "fst (claimRawModalSessionForSubmit table sid U now)"
    using cond get_Some_D [OF stored] by (auto simp: claim_unfold)
  then have first: "claimRawModalSessionForSubmit table sid U now = (True, table')"
    by (simp add: table'_def prod_eq_iff)
  have "\<forall>r \<in> set table'. \<not> claimCondition sid U now r"
    unfolding table'_def using no_claimable_after_claim by blast
  then have rest: "claimRepeatedly table' sid U now n = (replicate n False, table')"
    by (rule claimRepeatedly_nothing_claimable)
  have all: "claimRepeatedly table sid U now N = (True # replicate n False, table')"
    by (simp add: N first rest)
  have final: "getRawModalSessionRecord table' sid = Some (row\<lparr>STATUS := StatusSubmitted\<rparr>)"
    unfolding table'_def using cond stored by (simp add: get_after_claim)
  show ?thesis unfolding all using final by (simp add: N)
qed

theorem exactly_one_claim_succeeds_witness:
  "getRawModalSessionRecord [exampleRow] ''abc123'' = Some exampleRow
   \<and> OWNER_USER_ID exampleRow = ''42'' \<and> STATUS exampleRow = StatusOpen
   \<and> EXPIRES_AT exampleRow > 1000 \<and> (3::nat) \<ge> 1
   \<and> length (filter (\<lambda>r. r) (fst (claimRepeatedly [exampleRow] ''abc123'' ''42'' 1000 3))) = 1
   \<and> length (filter (\<lambda>r. \<not> r) (fst (claimRepeatedly [exampleRow] ''abc123'' ''42'' 1000 3)))
       = 3 - 1
   \<and> length (fst (claimRepeatedly [exampleRow] ''abc123'' ''42'' 1000 3)) = 3
   \<and> getRawModalSessionRecord
         (snd (claimRepeatedly [exampleRow] ''abc123'' ''42'' 1000 3)) ''abc123''
       = Some (exampleRow\<lparr>STATUS := StatusSubmitted\<rparr>)"
proof -
  have g: "getRawModalSessionRecord [exampleRow] ''abc123'' = Some exampleRow"
    by code_simp
  have o: "OWNER_USER_ID exampleRow = ''42''" by (simp add: exampleRow_def)
  have s: "STATUS exampleRow = StatusOpen" by (simp add: exampleRow_def)
  have e: "EXPIRES_AT exampleRow > 1000" by (simp add: exampleRow_def)
  have n: "(3::nat) \<ge> 1" by simp
  note c = exactly_one_claim_succeeds [OF g o s e n]
  show ?thesis
    by (intro conjI g o s e n c [THEN conjunct1] c [THEN conjunct2, THEN conjunct1]
        c [THEN conjunct2, THEN conjunct2, THEN conjunct1]
        c [THEN conjunct2, THEN conjunct2, THEN conjunct2])
qed

text \<open>
  \<^bold>\<open>C2.\<close> \<open>claimRawModalSessionForSubmit\<close> returns \<open>true\<close> exactly when a stored row
  has the session id, the owner, the status \<open>open\<close> and an expiry strictly after \<open>now\<close>;
  it sets exactly these rows to \<open>submitted\<close> and leaves every other row, and on
  \<open>false\<close> the whole table, as it was. No outcome is an error: the result is always a
  boolean with the table.
\<close>

theorem claim_flips_iff_open_owned_unexpired:
  "fst (claimRawModalSessionForSubmit table sid owner now) =
     (\<exists>row \<in> set table. SESSION_ID row = sid \<and> OWNER_USER_ID row = owner
        \<and> STATUS row = StatusOpen \<and> EXPIRES_AT row > now)
   \<and> snd (claimRawModalSessionForSubmit table sid owner now) =
       map (\<lambda>row. if SESSION_ID row = sid \<and> OWNER_USER_ID row = owner
                       \<and> STATUS row = StatusOpen \<and> EXPIRES_AT row > now
                    then row\<lparr>STATUS := StatusSubmitted\<rparr> else row) table
   \<and> (\<not> fst (claimRawModalSessionForSubmit table sid owner now)
        \<longrightarrow> snd (claimRawModalSessionForSubmit table sid owner now) = table)"
proof -
  let ?c = "claimCondition sid owner now"
  have a: "fst (claimRawModalSessionForSubmit table sid owner now) = (\<exists>row \<in> set table. ?c row)"
    by (simp add: claim_unfold)
  have b: "snd (claimRawModalSessionForSubmit table sid owner now) =
       map (\<lambda>row. if ?c row then row\<lparr>STATUS := StatusSubmitted\<rparr> else row) table"
    by (simp add: claim_unfold)
  have c: "\<not> fst (claimRawModalSessionForSubmit table sid owner now)
        \<Longrightarrow> snd (claimRawModalSessionForSubmit table sid owner now) = table"
    using a claim_nothing_claimable [of table sid owner now] by simp
  from a b c show ?thesis unfolding claimCondition_def by blast
qed

theorem claim_flips_iff_open_owned_unexpired_witness:
  "claimRawModalSessionForSubmit [exampleRow] ''abc123'' ''42'' 1000
     = (True, [exampleRow\<lparr>STATUS := StatusSubmitted\<rparr>])
   \<and> claimRawModalSessionForSubmit [exampleRow] ''abc123'' ''42'' 2000 = (False, [exampleRow])
   \<and> claimRawModalSessionForSubmit [exampleRow] ''abc123'' ''43'' 1000 = (False, [exampleRow])
   \<and> claimRawModalSessionForSubmit [exampleRow\<lparr>STATUS := StatusExpired\<rparr>] ''abc123'' ''42'' 1000
       = (False, [exampleRow\<lparr>STATUS := StatusExpired\<rparr>])"
  using claim_flips_iff_open_owned_unexpired [of "[exampleRow]" "''abc123''" "''42''" 1000]
    claim_flips_iff_open_owned_unexpired [of "[exampleRow]" "''abc123''" "''42''" 2000]
    claim_flips_iff_open_owned_unexpired [of "[exampleRow]" "''abc123''" "''43''" 1000]
    claim_flips_iff_open_owned_unexpired
      [of "[exampleRow\<lparr>STATUS := StatusExpired\<rparr>]" "''abc123''" "''42''" 1000]
  by (simp add: exampleRow_def prod_eq_iff)

lemma find_append_new:
  "find P table = Some row \<Longrightarrow> find P (table @ extra) = Some row"
  by (induction table) (auto split: if_splits)

lemma create_keeps_stored:
  "getRawModalSessionRecord table sid = Some row
     \<Longrightarrow> getRawModalSessionRecord (applyOp table (OpCreate input)) sid = Some row"
  by (auto simp: createRawModalSessionRecord_def getRawModalSessionRecord_def Let_def
      find_append_new split: sum.splits option.splits)

lemma statusOf_Some_D:
  "statusOf table sid = Some s
     \<Longrightarrow> \<exists>row. getRawModalSessionRecord table sid = Some row \<and> STATUS row = s"
  by (auto simp: statusOf_def)

lemma step_create_or_claim:
  assumes "isCreateOrClaim op" and "statusOf table sid = Some s"
  shows "statusOf (applyOp table op) sid = Some s
       \<or> (s = StatusOpen \<and> statusOf (applyOp table op) sid = Some StatusSubmitted)"
proof -
  obtain row where row: "getRawModalSessionRecord table sid = Some row" "STATUS row = s"
    using statusOf_Some_D [OF assms(2)] by blast
  show ?thesis
  proof (cases op)
    case (OpCreate input)
    have "getRawModalSessionRecord (applyOp table (OpCreate input)) sid = Some row"
      by (rule create_keeps_stored [OF row(1)])
    then show ?thesis by (simp add: OpCreate statusOf_def row(2))
  next
    case (OpClaimForSubmit sid' owner now)
    show ?thesis
    proof (cases "claimCondition sid' owner now row")
      case True
      then have "s = StatusOpen" using row(2) by (simp add: claimCondition_def)
      moreover have "statusOf (applyOp table op) sid = Some StatusSubmitted"
        by (simp add: OpClaimForSubmit statusOf_def get_after_claim row(1) True)
      ultimately show ?thesis by simp
    next
      case False
      then have "statusOf (applyOp table op) sid = Some s"
        by (simp add: OpClaimForSubmit statusOf_def get_after_claim row)
      then show ?thesis by simp
    qed
  next
    case (OpUpdateStatus input)
    then show ?thesis using assms(1) by simp
  next
    case (OpExpire sid')
    then show ?thesis using assms(1) by simp
  qed
qed

lemma run_create_or_claim:
  assumes "list_all isCreateOrClaim ops" and "statusOf table sid = Some s"
  shows "statusOf (foldl applyOp table ops) sid = Some s
       \<or> (s = StatusOpen \<and> statusOf (foldl applyOp table ops) sid = Some StatusSubmitted)"
  using assms
proof (induction ops arbitrary: table s)
  case Nil
  then show ?case by simp
next
  case (Cons op ops)
  from Cons.prems have op: "isCreateOrClaim op" and rest: "list_all isCreateOrClaim ops"
    by simp_all
  from step_create_or_claim [OF op Cons.prems(2)]
  show ?case
  proof
    assume "statusOf (applyOp table op) sid = Some s"
    from Cons.IH [OF rest this] show ?thesis by simp
  next
    assume a: "s = StatusOpen \<and> statusOf (applyOp table op) sid = Some StatusSubmitted"
    then have "statusOf (applyOp table op) sid = Some StatusSubmitted" by simp
    from Cons.IH [OF rest this] a show ?thesis by simp
  qed
qed

text \<open>
  \<^bold>\<open>C3\<close>, as stated, fails: \<open>updateRawModalSessionStatus\<close> writes the status it is
  given into the row whatever the row holds, and \<open>expireRawModalSession\<close> calls it. A
  submitted session is moved to \<open>expired\<close> by the one and back to \<open>open\<close> by the other.
\<close>

theorem status_not_monotonic_counterexample:
  "statusOf [exampleRow\<lparr>STATUS := StatusSubmitted\<rparr>] ''abc123'' = Some StatusSubmitted
   \<and> statusOf (runOps [exampleRow\<lparr>STATUS := StatusSubmitted\<rparr>] [OpExpire ''abc123''])
         ''abc123'' = Some StatusExpired
   \<and> statusOf (runOps [exampleRow\<lparr>STATUS := StatusSubmitted\<rparr>]
         [OpUpdateStatus \<lparr>update_sessionId = ''abc123'', update_status = StatusOpen\<rparr>])
         ''abc123'' = Some StatusOpen"
  by (simp add: statusOf_def runOps_def exampleRow_def getRawModalSessionRecord_def
      expireRawModalSession_def update_unfold)

text \<open>
  \<^bold>\<open>C3\<close>, amended. Under every sequence of \<open>create\<close> and
  \<open>claimRawModalSessionForSubmit\<close> operations the status of a stored session is
  monotonic: it stays what it was, or goes from \<open>open\<close> to \<open>submitted\<close>; in
  particular it never leaves \<open>submitted\<close> or \<open>expired\<close>. \<open>updateRawModalSessionStatus\<close>
  and \<open>expireRawModalSession\<close> overwrite the status of a stored session
  unconditionally.
\<close>

theorem status_monotonic_without_overwrite:
  assumes "list_all isCreateOrClaim ops" and "statusOf table sid = Some s"
  shows "(statusOf (runOps table ops) sid = Some s
           \<or> (s = StatusOpen \<and> statusOf (runOps table ops) sid = Some StatusSubmitted))
       \<and> statusOf (applyOp table
            (OpUpdateStatus \<lparr>update_sessionId = sid, update_status = s'\<rparr>)) sid = Some s'
       \<and> statusOf (applyOp table (OpExpire sid)) sid = Some StatusExpired"
proof -
  have mono: "statusOf (runOps table ops) sid = Some s
       \<or> (s = StatusOpen \<and> statusOf (runOps table ops) sid = Some StatusSubmitted)"
    unfolding runOps_def by (rule run_create_or_claim [OF assms])
  obtain row where row: "getRawModalSessionRecord table sid = Some row"
    using statusOf_Some_D [OF assms(2)] by blast
  then have sid: "SESSION_ID row = sid" using get_Some_D by blast
  have upd: "statusOf (snd (updateRawModalSessionStatus table
                 \<lparr>update_sessionId = sid, update_status = t\<rparr>)) sid = Some t" for t
    by (simp add: statusOf_def get_after_update row sid)
  have overwrite: "statusOf (applyOp table
            (OpUpdateStatus \<lparr>update_sessionId = sid, update_status = s'\<rparr>)) sid = Some s'"
    using upd by simp
  have expire: "statusOf (applyOp table (OpExpire sid)) sid = Some StatusExpired"
    using upd by (simp add: expireRawModalSession_def)
  from mono overwrite expire show ?thesis by blast
qed

theorem status_monotonic_without_overwrite_witness:
  "list_all isCreateOrClaim
     [OpClaimForSubmit ''abc123'' ''42'' 1000, OpClaimForSubmit ''abc123'' ''42'' 1500]
   \<and> statusOf [exampleRow] ''abc123'' = Some StatusOpen
   \<and> statusOf (runOps [exampleRow]
         [OpClaimForSubmit ''abc123'' ''42'' 1000, OpClaimForSubmit ''abc123'' ''42'' 1500])
         ''abc123'' = Some StatusSubmitted
   \<and> statusOf (applyOp [exampleRow]
         (OpUpdateStatus \<lparr>update_sessionId = ''abc123'', update_status = StatusSubmitted\<rparr>))
         ''abc123'' = Some StatusSubmitted
   \<and> statusOf (applyOp [exampleRow] (OpExpire ''abc123'')) ''abc123'' = Some StatusExpired"
proof -
  have a: "list_all isCreateOrClaim
     [OpClaimForSubmit ''abc123'' ''42'' 1000, OpClaimForSubmit ''abc123'' ''42'' 1500]"
    by simp
  have b: "statusOf [exampleRow] ''abc123'' = Some StatusOpen"
    by (simp add: statusOf_def getRawModalSessionRecord_def exampleRow_def)
  have c: "statusOf (runOps [exampleRow]
         [OpClaimForSubmit ''abc123'' ''42'' 1000, OpClaimForSubmit ''abc123'' ''42'' 1500])
         ''abc123'' \<noteq> Some StatusOpen"
    by code_simp
  from a b c status_monotonic_without_overwrite [OF a b, of StatusSubmitted]
  show ?thesis by blast
qed

text \<open>
  \<^bold>\<open>C7.\<close> \<open>deleteExpiredRawModalSessions\<close> keeps exactly the rows that do not have
  both an expiry before the cutoff and the status \<open>open\<close> or \<open>expired\<close>, returns the
  number of the rows it removed, and leaves the submitted rows, whatever their expiry,
  as they were and in their order.
\<close>

theorem sweep_deletes_exactly_stale_unsubmitted:
  "snd (deleteExpiredRawModalSessions table cutoff) =
     filter (\<lambda>row. \<not> (EXPIRES_AT row < cutoff
                        \<and> (STATUS row = StatusOpen \<or> STATUS row = StatusExpired))) table
   \<and> fst (deleteExpiredRawModalSessions table cutoff) =
       length (filter (\<lambda>row. EXPIRES_AT row < cutoff
                        \<and> (STATUS row = StatusOpen \<or> STATUS row = StatusExpired)) table)
   \<and> fst (deleteExpiredRawModalSessions table cutoff)
       + length (snd (deleteExpiredRawModalSessions table cutoff)) = length table
   \<and> filter (\<lambda>row. STATUS row = StatusSubmitted) (snd (deleteExpiredRawModalSessions table cutoff))
       = filter (\<lambda>row. STATUS row = StatusSubmitted) table"
proof -
  let ?d = "\<lambda>row. EXPIRES_AT row < cutoff
                \<and> (STATUS row = StatusOpen \<or> STATUS row = StatusExpired)"
  have d: "deleteCondition cutoff = ?d"
    by (auto simp: fun_eq_iff deleteCondition_def)
  have kept: "snd (deleteExpiredRawModalSessions table cutoff) = filter (\<lambda>row. \<not> ?d row) table"
    by (simp add: deleteExpiredRawModalSessions_def d)
  have count: "fst (deleteExpiredRawModalSessions table cutoff) = length (filter ?d table)"
    by (simp add: deleteExpiredRawModalSessions_def d)
  have total: "length (filter ?d table) + length (filter (\<lambda>row. \<not> ?d row) table) = length table"
    by (rule sum_length_filter_compl)
  have submitted:
    "filter (\<lambda>row. STATUS row = StatusSubmitted) (filter (\<lambda>row. \<not> ?d row) table)
       = filter (\<lambda>row. STATUS row = StatusSubmitted) table"
    by (induction table) auto
  show ?thesis
    unfolding kept count using total submitted by blast
qed

theorem sweep_deletes_exactly_stale_unsubmitted_witness:
  "deleteExpiredRawModalSessions
     [exampleRow, exampleRow\<lparr>STATUS := StatusSubmitted\<rparr>,
      exampleRow\<lparr>STATUS := StatusExpired\<rparr>, exampleRow\<lparr>EXPIRES_AT := 5000\<rparr>] 3000
   = (2, [exampleRow\<lparr>STATUS := StatusSubmitted\<rparr>, exampleRow\<lparr>EXPIRES_AT := 5000\<rparr>])"
  using sweep_deletes_exactly_stale_unsubmitted
    [of "[exampleRow, exampleRow\<lparr>STATUS := StatusSubmitted\<rparr>,
      exampleRow\<lparr>STATUS := StatusExpired\<rparr>, exampleRow\<lparr>EXPIRES_AT := 5000\<rparr>]" 3000]
  by (simp add: exampleRow_def prod_eq_iff)

section \<open>Properties of the custom id\<close>

lemma split_no_sep: "sep \<notin> set w \<Longrightarrow> split sep w = [w]"
proof (induction w)
  case Nil
  then show ?case by simp
next
  case (Cons a w)
  then have "a \<noteq> sep" by auto
  with Cons show ?case by simp
qed

lemma split_segment:
  "sep \<notin> set w \<Longrightarrow> split sep (w @ sep # rest) = w # split sep rest"
proof (induction w)
  case Nil
  then show ?case by simp
next
  case (Cons a w)
  then have "a \<noteq> sep" by auto
  with Cons show ?case by simp
qed

lemma supported_feature_no_colon:
  assumes "isSupportedFeature f"
  shows "CHR '':'' \<notin> set f \<and> f \<noteq> []"
proof -
  from assms consider "f = ''todo''" | "f = ''suggestion''" | "f = ''nominate''"
    | "f = ''round-history''"
    by (auto simp: isSupportedFeature_def RAW_MODAL_SUPPORTED_FEATURES_def)
  then show ?thesis by cases simp_all
qed

lemma supported_flow_no_colon:
  assumes "isSupportedFlow fl"
  shows "CHR '':'' \<notin> set fl \<and> fl \<noteq> []"
proof -
  from assms consider "fl = ''create''" | "fl = ''comment''" | "fl = ''edit-title''"
    | "fl = ''edit-description''" | "fl = ''query''"
    by (auto simp: isSupportedFlow_def RAW_MODAL_TODO_PILOT_FLOWS_def)
  then show ?thesis by cases simp_all
qed

lemma session_id_char_no_colon: "isSessionIdChar c \<Longrightarrow> c \<noteq> CHR '':''"
  unfolding isSessionIdChar_def by (rule notI) simp

lemma session_id_no_colon:
  assumes "isSessionIdValid sid"
  shows "CHR '':'' \<notin> set sid \<and> sid \<noteq> []"
proof -
  from assms have chars: "\<forall>c \<in> set sid. isSessionIdChar c" and len: "1 \<le> length sid"
    by (simp_all add: isSessionIdValid_def list_all_iff)
  from chars have "CHR '':'' \<notin> set sid" using session_id_char_no_colon by blast
  moreover from len have "sid \<noteq> []" by auto
  ultimately show ?thesis by simp
qed

lemma version_segment: "numberToString RAW_MODAL_SCHEMA_VERSION = ''1''"
  by code_simp

lemma parseInt_one: "parseInt ''1'' = Finite 1"
  by code_simp

lemma roundtrip_supported_flows:
  assumes built: "buildRawModalCustomId \<lparr> feature = f, flow = fl, sessionId = sid \<rparr> = Inr cid"
  shows "parseRawModalCustomId cid
           = Some \<lparr> feature = f, flow = fl, sessionId = sid,
                    version = int RAW_MODAL_SCHEMA_VERSION \<rparr>"
proof -
  from built have f: "isSupportedFeature f" and fl: "isSupportedFlow fl"
    and sid: "isSessionIdValid sid"
    and cid: "cid = ''modal'' @ CHR '':'' # f @ CHR '':'' # ''v1'' @ CHR '':'' # fl @ CHR '':'' # sid"
    by (auto simp: buildRawModalCustomId_def Let_def version_segment
        RAW_MODAL_CUSTOM_ID_PREFIX_def split: if_splits)
  note nf = supported_feature_no_colon [OF f]
  note nfl = supported_flow_no_colon [OF fl]
  note ns = session_id_no_colon [OF sid]
  have segs: "split (CHR '':'') cid = [''modal'', f, ''v1'', fl, sid]"
    unfolding cid using nf nfl ns
    by (simp add: split_segment split_no_sep)
  show ?thesis
    unfolding parseRawModalCustomId_def segs Let_def
    using nf nfl ns f fl sid
    by (simp add: numeral_eq_Suc RAW_MODAL_CUSTOM_ID_PREFIX_def startsWith_def parseInt_one
        RAW_MODAL_SCHEMA_VERSION_def)
qed

lemma build_succeeds_iff:
  "(\<exists>cid. buildRawModalCustomId parts = Inr cid) =
     (isSupportedFeature (feature parts) \<and> isSupportedFlow (flow parts)
        \<and> isSessionIdValid (sessionId parts)
        \<and> length (feature parts) + length (flow parts) + length (sessionId parts) + 11 \<le> 100)"
  by (auto simp: buildRawModalCustomId_def Let_def version_segment
        RAW_MODAL_CUSTOM_ID_PREFIX_def MAX_DISCORD_CUSTOM_ID_LENGTH_def)

text \<open>
  \<^bold>\<open>C5.\<close> The round trip holds for every input that \<open>buildRawModalCustomId\<close> accepts
  (\<open>roundtrip_supported_flows\<close>), but \<open>isSupportedFlow\<close> tests the flow against the
  to-do flows only: the flow \<open>review-decision\<close> of the feature \<open>suggestion\<close>, a member
  of \<open>RawModalFlow\<close>, is refused by \<open>buildRawModalCustomId\<close> with a valid session id and a
  composed identifier of 42 characters, and its identifier is refused by
  \<open>parseRawModalCustomId\<close>.
\<close>

theorem review_decision_flow_not_encodable:
  "''suggestion'' \<in> set RAW_MODAL_SUPPORTED_FEATURES
   \<and> ''review-decision'' \<in> set RawModalFlow
   \<and> isSessionIdValid ''abc123''
   \<and> length ''modal:suggestion:v1:review-decision:abc123'' \<le> MAX_DISCORD_CUSTOM_ID_LENGTH
   \<and> buildRawModalCustomId
        \<lparr> feature = ''suggestion'', flow = ''review-decision'', sessionId = ''abc123'' \<rparr>
       = Inl (UnsupportedFlow ''review-decision'')
   \<and> parseRawModalCustomId ''modal:suggestion:v1:review-decision:abc123'' = None"
  by code_simp

theorem review_decision_flow_not_encodable_witness:
  "isSupportedFeature ''suggestion''
   \<and> buildRawModalCustomId
        \<lparr> feature = ''suggestion'', flow = ''review-decision'', sessionId = ''abc123'' \<rparr>
       \<noteq> Inr ''modal:suggestion:v1:review-decision:abc123''"
  using review_decision_flow_not_encodable by (simp add: isSupportedFeature_def)

text \<open>
  \<^bold>\<open>C6.\<close> \<open>parseRawModalCustomId\<close> is total, but it reads the first five segments and
  ignores the rest, and \<open>parseInt\<close> reads a sign and ignores what follows the digits:
  an identifier of six segments, the version segment \<open>v1x\<close> and the version segment
  \<open>v+7\<close> are all decoded.
\<close>

theorem parse_accepts_outside_grammar:
  "length (split (CHR '':'') ''modal:todo:v1:create:abc123:extra'') = 6
   \<and> parseRawModalCustomId ''modal:todo:v1:create:abc123:extra''
       = Some \<lparr> feature = ''todo'', flow = ''create'', sessionId = ''abc123'', version = 1 \<rparr>
   \<and> parseRawModalCustomId ''modal:todo:v1x:create:abc123''
       = Some \<lparr> feature = ''todo'', flow = ''create'', sessionId = ''abc123'', version = 1 \<rparr>
   \<and> parseRawModalCustomId ''modal:todo:v+7:create:abc123''
       = Some \<lparr> feature = ''todo'', flow = ''create'', sessionId = ''abc123'', version = 7 \<rparr>"
  by code_simp

theorem parse_accepts_outside_grammar_witness:
  "parseRawModalCustomId ''modal:todo:v1:create:abc123:extra'' \<noteq> None
   \<and> parseRawModalCustomId ''modal:todo:v1x:create:abc123'' \<noteq> None"
  using parse_accepts_outside_grammar by simp

section \<open>Properties of the router and of the API service\<close>

lemma split_head:
  "split sep s = w # x # ws \<Longrightarrow> take (Suc (length w)) s = w @ [sep]"
proof (induction s arbitrary: w)
  case Nil
  then show ?case by simp
next
  case (Cons c cs)
  show ?case
  proof (cases "c = sep")
    case True
    then show ?thesis using Cons.prems by auto
  next
    case False
    then obtain w' where w': "split sep cs = w' # x # ws" "w = c # w'"
      using Cons.prems by (auto split: list.splits)
    from Cons.IH [OF w'(1)] w'(2) show ?thesis by simp
  qed
qed

lemma at_Some_0: "at xs 0 = Some x \<Longrightarrow> \<exists>ys. xs = x # ys"
  by (cases xs) auto

lemma at_Some_1: "at xs (Suc 0) = Some y \<Longrightarrow> \<exists>x ys. xs = x # y # ys"
  by (cases xs; cases "tl xs") auto

lemma parse_Some_prefix:
  assumes "parseRawModalCustomId cid = Some parsed"
  shows "cid \<noteq> [] \<and> startsWith cid RAW_MODAL_PREFIX"
proof -
  let ?segs = "split (CHR '':'') cid"
  from assms obtain p f where p: "at ?segs 0 = Some p" "at ?segs 1 = Some f" "p = RAW_MODAL_CUSTOM_ID_PREFIX"
    unfolding parseRawModalCustomId_def Let_def
    by (auto split: if_splits option.splits)
  from p(2) obtain x ys where "?segs = x # f # ys" using at_Some_1 by fastforce
  with p(1) have segs: "?segs = p # f # ys" by simp
  from split_head [OF segs] have "take (Suc (length p)) cid = p @ '':''" by simp
  then show ?thesis using p(3)
    by (auto simp: startsWith_def RAW_MODAL_PREFIX_def RAW_MODAL_CUSTOM_ID_PREFIX_def)
qed

text \<open>
  \<^bold>\<open>C10.\<close> For the features \<open>nominate\<close> and \<open>round-history\<close> the pilot gate is closed
  in every environment and for every guild; an interaction whose custom id decodes to
  one of them passes the prefix test of the router and is then left unhandled, with no
  reply and the table as it was.
\<close>

theorem pilot_gate_excludes_nominate_and_round_history:
  assumes "f = ''nominate'' \<or> f = ''round-history''"
  shows "\<not> isRawModalPilotEnabled env f gid
       \<and> (parseRawModalCustomId (interaction_customId interaction) = Some parsed
            \<and> feature parsed = f \<and> interaction_kind interaction \<noteq> OtherInteraction
          \<longrightarrow> startsWith (interaction_customId interaction) RAW_MODAL_PREFIX
              \<and> tryHandleManagedRawModalInteraction env table nowCheck nowClaim interaction
                  = (False, [], table))"
proof -
  have gate: "\<not> isRawModalPilotEnabled env f g" for g
    using assms
    by (auto simp: isRawModalPilotEnabled_def isRawModalPilotFeature_def
        RAW_MODAL_PILOT_FEATURES_def)
  have router: "tryHandleManagedRawModalInteraction env table nowCheck nowClaim interaction
                  = (False, [], table)"
    if p: "parseRawModalCustomId (interaction_customId interaction) = Some parsed"
      and f: "feature parsed = f" and k: "interaction_kind interaction \<noteq> OtherInteraction"
  proof -
    have c: "getInteractionCustomId interaction = Some (interaction_customId interaction)"
      using k by (cases "interaction_kind interaction") (simp_all add: getInteractionCustomId_def)
    show ?thesis
      unfolding tryHandleManagedRawModalInteraction_def
      using parse_Some_prefix [OF p] gate [of "interaction_guildId interaction"]
      by (simp add: c p f)
  qed
  show ?thesis using gate [of gid] router parse_Some_prefix by blast
qed

theorem pilot_gate_excludes_nominate_and_round_history_witness:
  "isRawModalPilotEnabled exampleEnv ''todo'' (Some ''7'')
   \<and> \<not> isRawModalPilotEnabled exampleEnv ''nominate'' (Some ''7'')
   \<and> parseRawModalCustomId (interaction_customId nominateSubmit)
       = Some \<lparr> feature = ''nominate'', flow = ''create'', sessionId = ''u42_r3'', version = 1 \<rparr>
   \<and> interaction_kind nominateSubmit \<noteq> OtherInteraction
   \<and> startsWith (interaction_customId nominateSubmit) RAW_MODAL_PREFIX
   \<and> tryHandleManagedRawModalInteraction exampleEnv [exampleRow] 1000 1000 nominateSubmit
       = (False, [], [exampleRow])"
proof -
  have t: "isRawModalPilotEnabled exampleEnv ''todo'' (Some ''7'')" by code_simp
  have p: "parseRawModalCustomId (interaction_customId nominateSubmit)
       = Some \<lparr> feature = ''nominate'', flow = ''create'', sessionId = ''u42_r3'', version = 1 \<rparr>"
    by code_simp
  have k: "interaction_kind nominateSubmit \<noteq> OtherInteraction" by code_simp
  have f: "feature \<lparr> feature = ''nominate'', flow = ''create'', sessionId = ''u42_r3'', version = 1 \<rparr> = ''nominate''"
    by simp
  from t p k f pilot_gate_excludes_nominate_and_round_history
    [of "''nominate''" exampleEnv "Some ''7''" nominateSubmit
      "\<lparr> feature = ''nominate'', flow = ''create'', sessionId = ''u42_r3'', version = 1 \<rparr>"
      "[exampleRow]" 1000 1000]
  show ?thesis by blast
qed

text \<open>
  \<^bold>\<open>C9\<close>, as stated, fails: \<open>openModal\<close> takes the custom id of the request when the
  request has one, and builds one only otherwise. The request of the suggestion review
  carries an identifier outside the encoding (which \<open>buildRawModalCustomId\<close> would even
  refuse), and any given identifier replaces the encoded one.
\<close>

theorem open_custom_id_not_always_encoded_counterexample:
  "openModal postOk suggestionReviewRequest
     = Inr \<lparr> custom_id = ''suggestion-review-decision:42:7'',
              response_title = ''Suggestion Review Decision'', response_components = () \<rparr>
   \<and> buildRawModalCustomId \<lparr> feature = feature suggestionReviewRequest,
         flow = flow suggestionReviewRequest, sessionId = sessionId suggestionReviewRequest \<rparr>
       = Inl (UnsupportedFlow ''review-decision'')
   \<and> openModal postOk (nominateRequest\<lparr> customId := Some ''anything'' \<rparr>)
       = Inr \<lparr> custom_id = ''anything'', response_title = ''Nominate a Game'',
                response_components = () \<rparr>
   \<and> buildRawModalCustomId \<lparr> feature = feature nominateRequest,
         flow = flow nominateRequest, sessionId = sessionId nominateRequest \<rparr>
       = Inr ''modal:nominate:v1:create:u42_r3''"
  by code_simp

text \<open>
  \<^bold>\<open>C9\<close>, amended. For every open request accepted by \<open>openModal\<close>, the custom id of
  the payload is the \<open>customId\<close> of the request when it has one, and otherwise the
  result of \<open>buildRawModalCustomId\<close> on its feature, flow and session id; it is never
  empty nor longer than 100 characters.
\<close>

theorem open_custom_id_given_or_encoded:
  assumes "openModal post request = Inr payload"
  shows "(case customId request of
            Some given \<Rightarrow> custom_id payload = given
          | None \<Rightarrow> buildRawModalCustomId \<lparr> feature = feature request, flow = flow request,
                       sessionId = sessionId request \<rparr> = Inr (custom_id payload))
       \<and> custom_id payload \<noteq> [] \<and> length (custom_id payload) \<le> 100
       \<and> response_title payload = title request
       \<and> response_components payload = components request"
  using assms unfolding openModal_def Let_def
  by (auto split: option.splits sum.splits if_splits)

theorem open_custom_id_given_or_encoded_witness:
  "openModal postOk nominateRequest
     = Inr \<lparr> custom_id = ''modal:nominate:v1:create:u42_r3'',
              response_title = ''Nominate a Game'', response_components = () \<rparr>
   \<and> customId nominateRequest = None
   \<and> buildRawModalCustomId \<lparr> feature = feature nominateRequest,
         flow = flow nominateRequest, sessionId = sessionId nominateRequest \<rparr>
       = Inr ''modal:nominate:v1:create:u42_r3''
   \<and> openModal postOk suggestionReviewRequest
       = Inr \<lparr> custom_id = ''suggestion-review-decision:42:7'',
                response_title = ''Suggestion Review Decision'', response_components = () \<rparr>
   \<and> customId suggestionReviewRequest = Some ''suggestion-review-decision:42:7''"
proof -
  have o: "openModal postOk nominateRequest
     = Inr \<lparr> custom_id = ''modal:nominate:v1:create:u42_r3'',
              response_title = ''Nominate a Game'', response_components = () \<rparr>"
    by code_simp
  have n: "customId nominateRequest = None" by code_simp
  have o': "openModal postOk suggestionReviewRequest
       = Inr \<lparr> custom_id = ''suggestion-review-decision:42:7'',
                response_title = ''Suggestion Review Decision'', response_components = () \<rparr>"
    by code_simp
  have n': "customId suggestionReviewRequest = Some ''suggestion-review-decision:42:7''"
    by code_simp
  from open_custom_id_given_or_encoded [OF o] open_custom_id_given_or_encoded [OF o'] n o o' n'
  show ?thesis by simp
qed

text \<open>
  \<^bold>\<open>C4\<close>, as stated, fails in its second half: the expiry test precedes the status
  test, so the second submission, one second later, is answered with the expiry message
  again, not with the message of the status path.
\<close>

theorem second_submit_after_expiry_counterexample:
  "tryHandleManagedRawModalInteraction exampleEnv [exampleRow] 3000 3000 exampleSubmit
     = (True, [DeferReply, Reply MSG_SESSION_EXPIRED], [exampleRow\<lparr>STATUS := StatusExpired\<rparr>])
   \<and> tryHandleManagedRawModalInteraction exampleEnv [exampleRow\<lparr>STATUS := StatusExpired\<rparr>]
         3001 3001 exampleSubmit
     = (True, [DeferReply, Reply MSG_SESSION_EXPIRED], [exampleRow\<lparr>STATUS := StatusExpired\<rparr>])
   \<and> MSG_SESSION_EXPIRED \<noteq> MSG_NO_LONGER_ACTIVE"
  by code_simp

text \<open>
  \<^bold>\<open>C4\<close>, amended. For a stored session owned by \<open>U\<close>, open, with an expiry that is
  not after the time of the submission, a valid submission from \<open>U\<close> sets the session to
  \<open>expired\<close> and is answered with the expiry message; a second submission from \<open>U\<close> at
  a later time is answered with the expiry message again (neither with the message of the
  status path nor with that of a missing session) and leaves the table as it is.
\<close>

theorem expired_session_replies_expiry_twice:
  assumes kind: "interaction_kind interaction = ModalSubmit"
    and valid: "ok (validateRawModalSubmitInteractionPayload
                  (interaction_customId interaction) (interaction_components interaction))"
    and stored: "getRawModalSessionRecord table sid = Some session"
    and owned: "OWNER_USER_ID session = interaction_userId interaction"
    and "open": "STATUS session = StatusOpen"
    and past: "EXPIRES_AT session \<le> now1"
    and later: "now1 \<le> now2"
  shows "handleManagedRawModalSubmit table now1 claim1 interaction sid
           = ([DeferReply, Reply MSG_SESSION_EXPIRED], snd (expireRawModalSession table sid))
       \<and> getRawModalSessionRecord (snd (expireRawModalSession table sid)) sid
           = Some (session\<lparr>STATUS := StatusExpired\<rparr>)
       \<and> handleManagedRawModalSubmit (snd (expireRawModalSession table sid)) now2 claim2
             interaction sid
           = ([DeferReply, Reply MSG_SESSION_EXPIRED], snd (expireRawModalSession table sid))
       \<and> MSG_SESSION_EXPIRED \<noteq> MSG_NO_LONGER_ACTIVE
       \<and> MSG_SESSION_EXPIRED \<noteq> MSG_SESSION_NOT_FOUND"
proof -
  define table' where "table' = snd (expireRawModalSession table sid)"
  have sid: "SESSION_ID session = sid" using get_Some_D [OF stored] by simp
  have repl: "isRepliable interaction" using kind by (simp add: isRepliable_def)
  have exp1: "isRawModalSessionExpired session now1"
    using past by (simp add: isRawModalSessionExpired_def)
  have first: "handleManagedRawModalSubmit table now1 claim1 interaction sid
           = ([DeferReply, Reply MSG_SESSION_EXPIRED], table')"
    unfolding handleManagedRawModalSubmit_def table'_def
    by (simp add: kind valid stored owned "open" exp1 sid sendSessionRecoveryMessage_def repl)
  have stored': "getRawModalSessionRecord table' sid = Some (session\<lparr>STATUS := StatusExpired\<rparr>)"
    unfolding table'_def expireRawModalSession_def
    by (simp add: get_after_update stored sid)
  have exp2: "isRawModalSessionExpired (session\<lparr>STATUS := StatusExpired\<rparr>) now2"
    using past later by (simp add: isRawModalSessionExpired_def)
  have second: "handleManagedRawModalSubmit table' now2 claim2 interaction sid
           = ([DeferReply, Reply MSG_SESSION_EXPIRED], table')"
    unfolding handleManagedRawModalSubmit_def
    by (simp add: kind valid stored' owned exp2 sendSessionRecoveryMessage_def repl)
  have m1: "MSG_SESSION_EXPIRED \<noteq> MSG_NO_LONGER_ACTIVE"
    by (simp add: MSG_SESSION_EXPIRED_def MSG_NO_LONGER_ACTIVE_def)
  have m2: "MSG_SESSION_EXPIRED \<noteq> MSG_SESSION_NOT_FOUND"
    by (simp add: MSG_SESSION_EXPIRED_def MSG_SESSION_NOT_FOUND_def)
  show ?thesis using first stored' second m1 m2 unfolding table'_def by blast
qed

theorem expired_session_replies_expiry_twice_witness:
  "interaction_kind exampleSubmit = ModalSubmit
   \<and> ok (validateRawModalSubmitInteractionPayload
            (interaction_customId exampleSubmit) (interaction_components exampleSubmit))
   \<and> getRawModalSessionRecord [exampleRow] ''abc123'' = Some exampleRow
   \<and> OWNER_USER_ID exampleRow = interaction_userId exampleSubmit
   \<and> STATUS exampleRow = StatusOpen
   \<and> EXPIRES_AT exampleRow \<le> 3000
   \<and> handleManagedRawModalSubmit [exampleRow] 3000 3000 exampleSubmit ''abc123''
       = ([DeferReply, Reply MSG_SESSION_EXPIRED], snd (expireRawModalSession [exampleRow] ''abc123''))
   \<and> handleManagedRawModalSubmit (snd (expireRawModalSession [exampleRow] ''abc123'')) 3001 3001
         exampleSubmit ''abc123''
       = ([DeferReply, Reply MSG_SESSION_EXPIRED], snd (expireRawModalSession [exampleRow] ''abc123''))"
proof -
  have k: "interaction_kind exampleSubmit = ModalSubmit" by code_simp
  have v: "ok (validateRawModalSubmitInteractionPayload
            (interaction_customId exampleSubmit) (interaction_components exampleSubmit))"
    by code_simp
  have g: "getRawModalSessionRecord [exampleRow] ''abc123'' = Some exampleRow" by code_simp
  have o: "OWNER_USER_ID exampleRow = interaction_userId exampleSubmit" by code_simp
  have s: "STATUS exampleRow = StatusOpen" by code_simp
  have e: "EXPIRES_AT exampleRow \<le> 3000" by code_simp
  have l: "(3000::int) \<le> 3001" by simp
  from k v g o s e expired_session_replies_expiry_twice [OF k v g o s e l, of 3000 3001]
  show ?thesis by blast
qed

lemma radio_group_unsupported_by_router_validator:
  "field_type field = RadioGroup \<Longrightarrow> \<not> ok (validateModalField field)"
  by (simp add: validateModalField_def validateCustomId_def Let_def reject_def accept_def)

text \<open>
  \<^bold>\<open>C8.\<close> The validator that the router calls has no case for a radio group: the
  submission of the radio group with the string value \<open>accept\<close> is rejected as an
  unsupported field type and the router answers that the payload is invalid, while
  \<open>validateSubmitComponents\<close> of the API service accepts the same submission.
\<close>

theorem router_validator_rejects_radio_group:
  "validateRawModalSubmitInteractionPayload (interaction_customId radioSubmit)
       (interaction_components radioSubmit)
     = \<lparr> ok = False, reason = Some ''unsupported modal field type'' \<rparr>
   \<and> tryHandleManagedRawModalInteraction exampleEnv [exampleRow] 1000 1000 radioSubmit
       = (True, [DeferReply, Reply MSG_INVALID_PAYLOAD], [exampleRow])
   \<and> validateSubmitComponents (Some radioSubmitData) = \<lparr> ok = True, reason = None \<rparr>"
  by code_simp

theorem router_validator_rejects_radio_group_witness:
  "\<not> ok (validateRawModalSubmitInteractionPayload (interaction_customId radioSubmit)
            (interaction_components radioSubmit))
   \<and> ok (validateSubmitComponents (Some radioSubmitData))"
  using router_validator_rejects_radio_group by simp

end
